theory Spec2Isabelle
  imports Main "HOL-Library.Word"
begin

unbundle bit_operations_syntax

section \<open>Host headers\<close>

text \<open>
  The header \<^verbatim>\<open>fs_mini.hpp\<close> takes its numeric constants from the host's
  \<^verbatim>\<open><sys/stat.h>\<close>, \<^verbatim>\<open><fcntl.h>\<close> and \<^verbatim>\<open><errno.h>\<close>, which are not part of
  the repository. The permission bits have the values POSIX fixes for them; the file type
  field and the open flags have the values of Linux (the type field is the same on
  FreeBSD). In C all of them are \<^verbatim>\<open>int\<close> constants, here 32-bit words.
\<close>

definition S_IRUSR :: "32 word" where "S_IRUSR = 0x100"
definition S_IWUSR :: "32 word" where "S_IWUSR = 0x80"
definition S_IXUSR :: "32 word" where "S_IXUSR = 0x40"
definition S_IRWXU :: "32 word" where "S_IRWXU = 0x1C0"
definition S_IRGRP :: "32 word" where "S_IRGRP = 0x20"
definition S_IWGRP :: "32 word" where "S_IWGRP = 0x10"
definition S_IXGRP :: "32 word" where "S_IXGRP = 0x8"
definition S_IRWXG :: "32 word" where "S_IRWXG = 0x38"
definition S_IROTH :: "32 word" where "S_IROTH = 0x4"
definition S_IWOTH :: "32 word" where "S_IWOTH = 0x2"
definition S_IXOTH :: "32 word" where "S_IXOTH = 0x1"
definition S_IRWXO :: "32 word" where "S_IRWXO = 0x7"
definition S_ISUID :: "32 word" where "S_ISUID = 0x800"
definition S_ISGID :: "32 word" where "S_ISGID = 0x400"
definition S_ISVTX :: "32 word" where "S_ISVTX = 0x200"

definition S_IFMT :: "32 word" where "S_IFMT = 0xF000"
definition S_IFSOCK :: "32 word" where "S_IFSOCK = 0xC000"
definition S_IFLNK :: "32 word" where "S_IFLNK = 0xA000"
definition S_IFREG :: "32 word" where "S_IFREG = 0x8000"
definition S_IFBLK :: "32 word" where "S_IFBLK = 0x6000"
definition S_IFDIR :: "32 word" where "S_IFDIR = 0x4000"
definition S_IFCHR :: "32 word" where "S_IFCHR = 0x2000"
definition S_IFIFO :: "32 word" where "S_IFIFO = 0x1000"

definition O_RDONLY :: "32 word" where "O_RDONLY = 0x0"
definition O_WRONLY :: "32 word" where "O_WRONLY = 0x1"
definition O_RDWR :: "32 word" where "O_RDWR = 0x2"
definition O_ACCMODE :: "32 word" where "O_ACCMODE = 0x3"
definition O_CREAT :: "32 word" where "O_CREAT = 0x40"
definition O_EXCL :: "32 word" where "O_EXCL = 0x80"
definition O_TRUNC :: "32 word" where "O_TRUNC = 0x200"
definition O_APPEND :: "32 word" where "O_APPEND = 0x400"

definition ENOENT :: int where "ENOENT = 2"
definition EIO :: int where "EIO = 5"
definition EBADF :: int where "EBADF = 9"
definition EEXIST :: int where "EEXIST = 17"
definition ENOTDIR :: int where "ENOTDIR = 20"
definition EISDIR :: int where "EISDIR = 21"
definition EINVAL :: int where "EINVAL = 22"
definition ENOTEMPTY :: int where "ENOTEMPTY = 39"
definition ELOOP :: int where "ELOOP = 40"
definition EPERM :: int where "EPERM = 1"

section \<open>Flag tables: namespaces \<^verbatim>\<open>fs_omode\<close> and \<^verbatim>\<open>fs_perms\<close>\<close>

definition fs_omode_append :: "32 word" where "fs_omode_append = O_APPEND"
definition fs_omode_create :: "32 word" where "fs_omode_create = O_CREAT"
definition fs_omode_excl :: "32 word" where "fs_omode_excl = O_EXCL"
definition fs_omode_readonly :: "32 word" where "fs_omode_readonly = O_RDONLY"
definition fs_omode_read_write :: "32 word" where "fs_omode_read_write = O_RDWR"
definition fs_omode_truncate :: "32 word" where "fs_omode_truncate = O_TRUNC"
definition fs_omode_writeonly :: "32 word" where "fs_omode_writeonly = O_WRONLY"

definition fs_perms_none :: "32 word" where "fs_perms_none = 0"
definition fs_perms_owner_read :: "32 word" where "fs_perms_owner_read = S_IRUSR"
definition fs_perms_owner_write :: "32 word" where "fs_perms_owner_write = S_IWUSR"
definition fs_perms_owner_exec :: "32 word" where "fs_perms_owner_exec = S_IXUSR"
definition fs_perms_owner_all :: "32 word" where "fs_perms_owner_all = S_IRWXU"
definition fs_perms_group_read :: "32 word" where "fs_perms_group_read = S_IRGRP"
definition fs_perms_group_write :: "32 word" where "fs_perms_group_write = S_IWGRP"
definition fs_perms_group_exec :: "32 word" where "fs_perms_group_exec = S_IXGRP"
definition fs_perms_group_all :: "32 word" where "fs_perms_group_all = S_IRWXG"
definition fs_perms_others_read :: "32 word" where "fs_perms_others_read = S_IROTH"
definition fs_perms_others_write :: "32 word" where "fs_perms_others_write = S_IWOTH"
definition fs_perms_others_exec :: "32 word" where "fs_perms_others_exec = S_IXOTH"
definition fs_perms_others_all :: "32 word" where "fs_perms_others_all = S_IRWXO"
definition fs_perms_all :: "32 word" where
  "fs_perms_all = S_IRWXU OR S_IRWXG OR S_IRWXO"
definition fs_perms_set_uid :: "32 word" where "fs_perms_set_uid = S_ISUID"
definition fs_perms_set_gid :: "32 word" where "fs_perms_set_gid = S_ISGID"
definition fs_perms_sticky_bit :: "32 word" where "fs_perms_sticky_bit = S_ISVTX"
definition fs_perms_mask :: "32 word" where
  "fs_perms_mask = S_IRWXU OR S_IRWXG OR S_IRWXO OR S_ISUID OR S_ISGID OR S_ISVTX"
definition fs_perms_unknown :: "32 word" where "fs_perms_unknown = 0xffff"

section \<open>The process and the operating system\<close>

text \<open>
  \<^verbatim>\<open>std::system_error\<close> as the header builds it: the numeric code, the error
  category and the string given to the constructor. The standard library has four
  categories; the header only ever names \<^verbatim>\<open>std::generic_category()\<close>.
\<close>

datatype error_category =
  Generic_category | System_category | Iostream_category | Future_category

datatype system_error =
  System_error (err_code: int) (err_category: error_category) (err_what: string)

text \<open>The two fields of \<^verbatim>\<open>struct stat\<close> that the header reads.\<close>

record stat =
  st_mode :: "32 word"
  st_size :: "64 word"

text \<open>
  What a call of the header can see and change: the process-global \<^verbatim>\<open>errno\<close>, the
  state of the operating system (files, descriptors), the environment of the process, and
  the bytes that an uninitialised \<^verbatim>\<open>struct stat st;\<close> on the stack happens to hold.
\<close>

record 'k world =
  errno :: int
  kern :: 'k
  environ :: "string \<Rightarrow> string option"
  st_uninit :: stat

text \<open>
  The system calls are those of the host, not code of the repository: the model takes them
  as a parameter. Each call maps the kernel state to a new one and either fails with an
  error number (\<open>Inl\<close>) or succeeds with its result (\<open>Inr\<close>). Bytes are \<open>char\<close>s.
  \<open>k_open\<close> gets the third argument of \<^verbatim>\<open>open(2)\<close> when the caller passes one.
\<close>

record 'k kernel =
  k_open :: "string \<Rightarrow> 32 word \<Rightarrow> 32 word option \<Rightarrow> 'k \<Rightarrow> (int + nat) \<times> 'k"
  k_close :: "int \<Rightarrow> 'k \<Rightarrow> (int + unit) \<times> 'k"
  k_read :: "int \<Rightarrow> nat \<Rightarrow> 'k \<Rightarrow> (int + string) \<times> 'k"
  k_write :: "int \<Rightarrow> string \<Rightarrow> 'k \<Rightarrow> (int + nat) \<times> 'k"
  k_stat :: "string \<Rightarrow> 'k \<Rightarrow> (int + stat) \<times> 'k"
  k_lstat :: "string \<Rightarrow> 'k \<Rightarrow> (int + stat) \<times> 'k"
  k_fstat :: "int \<Rightarrow> 'k \<Rightarrow> (int + stat) \<times> 'k"
  k_copy_file_range :: "int \<Rightarrow> int \<Rightarrow> nat \<Rightarrow> 'k \<Rightarrow> (int + nat) \<times> 'k"
  k_symlink :: "string \<Rightarrow> string \<Rightarrow> 'k \<Rightarrow> (int + unit) \<times> 'k"
  k_link :: "string \<Rightarrow> string \<Rightarrow> 'k \<Rightarrow> (int + unit) \<times> 'k"
  k_unlink :: "string \<Rightarrow> 'k \<Rightarrow> (int + unit) \<times> 'k"
  k_remove :: "string \<Rightarrow> 'k \<Rightarrow> (int + unit) \<times> 'k"
  k_mkdir :: "string \<Rightarrow> 32 word \<Rightarrow> 'k \<Rightarrow> (int + unit) \<times> 'k"
  k_rename :: "string \<Rightarrow> string \<Rightarrow> 'k \<Rightarrow> (int + unit) \<times> 'k"

text \<open>
  \<^verbatim>\<open>std::string::c_str()\<close>: the callee reads the characters up to the first NUL.
\<close>

definition c_str :: "string \<Rightarrow> string" where
  "c_str s = takeWhile (\<lambda>c. c \<noteq> CHR 0x00) s"

subsection \<open>The C library calls as the header sees them\<close>

text \<open>
  A failing call returns \<open>-1\<close> and stores the error number in \<^verbatim>\<open>errno\<close>; a call
  that succeeds leaves \<^verbatim>\<open>errno\<close> as it was.
\<close>

definition libc_ret :: "('a \<Rightarrow> int) \<Rightarrow> (int + 'a) \<times> 'k \<Rightarrow> 'k world \<Rightarrow> int \<times> 'k world" where
  "libc_ret f r w =
     (case r of
        (Inl e, k') \<Rightarrow> (- 1, w\<lparr>errno := e, kern := k'\<rparr>)
      | (Inr v, k') \<Rightarrow> (f v, w\<lparr>kern := k'\<rparr>))"

definition c_open :: "'k kernel \<Rightarrow> string \<Rightarrow> 32 word \<Rightarrow> 32 word option \<Rightarrow> 'k world \<Rightarrow> int \<times> 'k world" where
  "c_open K p flags mode w = libc_ret int (k_open K p flags mode (kern w)) w"

definition c_close :: "'k kernel \<Rightarrow> int \<Rightarrow> 'k world \<Rightarrow> int \<times> 'k world" where
  "c_close K fd w = libc_ret (\<lambda>_. 0) (k_close K fd (kern w)) w"

text \<open>
  \<^verbatim>\<open>read\<close> stores the bytes it got at the start of the caller's buffer and returns
  their number.
\<close>

definition c_read :: "'k kernel \<Rightarrow> int \<Rightarrow> string \<Rightarrow> nat \<Rightarrow> 'k world \<Rightarrow> int \<times> string \<times> 'k world" where
  "c_read K fd buf nbytes w =
     (case k_read K fd nbytes (kern w) of
        (Inl e, k') \<Rightarrow> (- 1, buf, w\<lparr>errno := e, kern := k'\<rparr>)
      | (Inr bs, k') \<Rightarrow> (int (length bs), bs @ drop (length bs) buf, w\<lparr>kern := k'\<rparr>))"

definition c_write :: "'k kernel \<Rightarrow> int \<Rightarrow> string \<Rightarrow> nat \<Rightarrow> 'k world \<Rightarrow> int \<times> 'k world" where
  "c_write K fd buf nbytes w = libc_ret int (k_write K fd (take nbytes buf) (kern w)) w"

text \<open>
  The three \<^verbatim>\<open>stat\<close> calls fill the caller's struct on success and leave it as it
  was on failure: \<open>st\<close> is the struct before the call.
\<close>

definition stat_ret :: "(int + stat) \<times> 'k \<Rightarrow> stat \<Rightarrow> 'k world \<Rightarrow> int \<times> stat \<times> 'k world" where
  "stat_ret r st w =
     (case r of
        (Inl e, k') \<Rightarrow> (- 1, st, w\<lparr>errno := e, kern := k'\<rparr>)
      | (Inr s, k') \<Rightarrow> (0, s, w\<lparr>kern := k'\<rparr>))"

definition c_stat :: "'k kernel \<Rightarrow> string \<Rightarrow> stat \<Rightarrow> 'k world \<Rightarrow> int \<times> stat \<times> 'k world" where
  "c_stat K p st w = stat_ret (k_stat K p (kern w)) st w"

definition c_lstat :: "'k kernel \<Rightarrow> string \<Rightarrow> stat \<Rightarrow> 'k world \<Rightarrow> int \<times> stat \<times> 'k world" where
  "c_lstat K p st w = stat_ret (k_lstat K p (kern w)) st w"

definition c_fstat :: "'k kernel \<Rightarrow> int \<Rightarrow> stat \<Rightarrow> 'k world \<Rightarrow> int \<times> stat \<times> 'k world" where
  "c_fstat K fd st w = stat_ret (k_fstat K fd (kern w)) st w"

text \<open>
  \<^verbatim>\<open>copy_file_range(rfd, nullptr, wfd, nullptr, len, 0)\<close>: both offsets are those
  of the descriptors.
\<close>

definition c_copy_file_range :: "'k kernel \<Rightarrow> int \<Rightarrow> int \<Rightarrow> 64 word \<Rightarrow> 'k world \<Rightarrow> int \<times> 'k world" where
  "c_copy_file_range K rfd wfd len w =
     libc_ret int (k_copy_file_range K rfd wfd (unat len) (kern w)) w"

definition c_symlink :: "'k kernel \<Rightarrow> string \<Rightarrow> string \<Rightarrow> 'k world \<Rightarrow> int \<times> 'k world" where
  "c_symlink K target link_path w = libc_ret (\<lambda>_. 0) (k_symlink K target link_path (kern w)) w"

definition c_link :: "'k kernel \<Rightarrow> string \<Rightarrow> string \<Rightarrow> 'k world \<Rightarrow> int \<times> 'k world" where
  "c_link K old_path new_path w = libc_ret (\<lambda>_. 0) (k_link K old_path new_path (kern w)) w"

definition c_unlink :: "'k kernel \<Rightarrow> string \<Rightarrow> 'k world \<Rightarrow> int \<times> 'k world" where
  "c_unlink K p w = libc_ret (\<lambda>_. 0) (k_unlink K p (kern w)) w"

definition c_remove :: "'k kernel \<Rightarrow> string \<Rightarrow> 'k world \<Rightarrow> int \<times> 'k world" where
  "c_remove K p w = libc_ret (\<lambda>_. 0) (k_remove K p (kern w)) w"

definition c_mkdir :: "'k kernel \<Rightarrow> string \<Rightarrow> 32 word \<Rightarrow> 'k world \<Rightarrow> int \<times> 'k world" where
  "c_mkdir K p mode w = libc_ret (\<lambda>_. 0) (k_mkdir K p mode (kern w)) w"

definition c_rename :: "'k kernel \<Rightarrow> string \<Rightarrow> string \<Rightarrow> 'k world \<Rightarrow> int \<times> 'k world" where
  "c_rename K old_path new_path w = libc_ret (\<lambda>_. 0) (k_rename K old_path new_path (kern w)) w"

text \<open>\<^verbatim>\<open>getenv\<close>: \<open>None\<close> is the null pointer. It does not touch \<^verbatim>\<open>errno\<close>.\<close>

definition c_getenv :: "string \<Rightarrow> 'k world \<Rightarrow> string option" where
  "c_getenv name w = environ w name"

section \<open>The header \<^verbatim>\<open>fs_mini.hpp\<close>\<close>

text \<open>
  A function of the header either returns a value (\<open>Inr\<close>) or throws a
  \<^verbatim>\<open>std::system_error\<close> (\<open>Inl\<close>); in both cases it leaves a world behind.
\<close>

type_synonym ('k, 'a) result = "(system_error + 'a) \<times> 'k world"

subsection \<open>Namespace \<^verbatim>\<open>fs_error\<close>\<close>

definition fs_error_get :: "string \<Rightarrow> 'k world \<Rightarrow> system_error" where
  "fs_error_get err w = (let eno = errno w in System_error eno Generic_category err)"

subsection \<open>Namespace \<^verbatim>\<open>fs\<close>: handles\<close>

definition open_file :: "'k kernel \<Rightarrow> string \<Rightarrow> 32 word \<Rightarrow> 'k world \<Rightarrow> ('k, int) result" where
  "open_file K file_path flags w =
     (case c_open K (c_str file_path) flags None w of
        (fd, w') \<Rightarrow>
          if fd = - 1 then (Inl (fs_error_get ''open()'' w'), w')
          else (Inr fd, w'))"

definition open_file_mode ::
  "'k kernel \<Rightarrow> string \<Rightarrow> 32 word \<Rightarrow> 32 word \<Rightarrow> 'k world \<Rightarrow> ('k, int) result" where
  "open_file_mode K file_path flags mode w =
     (case c_open K (c_str file_path) flags (Some mode) w of
        (fd, w') \<Rightarrow>
          if fd = - 1 then (Inl (fs_error_get ''open()'' w'), w')
          else (Inr fd, w'))"

definition close_file :: "'k kernel \<Rightarrow> int \<Rightarrow> 'k world \<Rightarrow> ('k, unit) result" where
  "close_file K fd w =
     (case c_close K fd w of
        (r, w') \<Rightarrow>
          if r = - 1 then (Inl (fs_error_get ''close()'' w'), w')
          else (Inr (), w'))"

text \<open>
  \<open>read_object\<close> returns the count together with the buffer that \<open>ptr\<close> points to
  as the call left it.
\<close>

definition read_object ::
  "'k kernel \<Rightarrow> int \<Rightarrow> string \<Rightarrow> nat \<Rightarrow> 'k world \<Rightarrow> ('k, int \<times> string) result" where
  "read_object K fd ptr nbytes w =
     (case c_read K fd ptr nbytes w of
        (sz, buf, w') \<Rightarrow>
          if sz = - 1 then (Inl (fs_error_get ''read()'' w'), w')
          else (Inr (sz, buf), w'))"

definition write_object ::
  "'k kernel \<Rightarrow> int \<Rightarrow> string \<Rightarrow> nat \<Rightarrow> 'k world \<Rightarrow> ('k, int) result" where
  "write_object K fd ptr nbytes w =
     (case c_write K fd ptr nbytes w of
        (sz, w') \<Rightarrow>
          if sz = - 1 then (Inl (fs_error_get ''write()'' w'), w')
          else (Inr sz, w'))"

subsection \<open>Metadata\<close>

text \<open>\<^verbatim>\<open>std::intmax_t\<close> is the 64-bit pattern of \<^verbatim>\<open>st_size\<close>.\<close>

definition file_size :: "'k kernel \<Rightarrow> string \<Rightarrow> 'k world \<Rightarrow> ('k, 64 word) result" where
  "file_size K path w =
     (case c_stat K (c_str path) (st_uninit w) w of
        (r, st, w') \<Rightarrow>
          if r = - 1 then (Inl (fs_error_get ''stat()'' w'), w')
          else (Inr (st_size st), w'))"

definition file_size_fd :: "'k kernel \<Rightarrow> int \<Rightarrow> 'k world \<Rightarrow> ('k, 64 word) result" where
  "file_size_fd K fd w =
     (case c_fstat K fd (st_uninit w) w of
        (r, st, w') \<Rightarrow>
          if r = - 1 then (Inl (fs_error_get ''fstat()'' w'), w')
          else (Inr (st_size st), w'))"

definition is_file_exists :: "'k kernel \<Rightarrow> string \<Rightarrow> 'k world \<Rightarrow> ('k, bool) result" where
  "is_file_exists K path w =
     (case c_stat K (c_str path) (st_uninit w) w of
        (r, st, w') \<Rightarrow>
          if r = - 1 then
            (let eno = errno w' in
             if eno = ENOENT then (Inr False, w')
             else (Inl (fs_error_get ''stat()'' w'), w'))
          else (Inr (st_mode st AND S_IFMT = S_IFREG), w'))"

definition is_directory_exists :: "'k kernel \<Rightarrow> string \<Rightarrow> 'k world \<Rightarrow> ('k, bool) result" where
  "is_directory_exists K path w =
     (case c_stat K (c_str path) (st_uninit w) w of
        (r, st, w') \<Rightarrow>
          if r = - 1 then
            (let eno = errno w' in
             if eno = ENOENT then (Inr False, w')
             else (Inl (fs_error_get ''stat()'' w'), w'))
          else (Inr (st_mode st AND S_IFMT = S_IFDIR), w'))"

definition is_symlink_exists :: "'k kernel \<Rightarrow> string \<Rightarrow> 'k world \<Rightarrow> ('k, bool) result" where
  "is_symlink_exists K path w =
     (case c_lstat K (c_str path) (st_uninit w) w of
        (r, st, w') \<Rightarrow>
          if r = - 1 then
            (let eno = errno w' in
             if eno = ENOENT then (Inr False, w')
             else (Inl (fs_error_get ''lstat()'' w'), w'))
          else (Inr (st_mode st AND S_IFMT = S_IFLNK), w'))"

subsection \<open>Copying\<close>

text \<open>
  The \<^verbatim>\<open>do ... while (len > 0)\<close> loop of \<open>copy_file\<close>. \<open>c_range\<close> and \<open>len\<close>
  are \<^verbatim>\<open>std::size_t\<close>: the \<^verbatim>\<open>ssize_t\<close> that \<^verbatim>\<open>copy_file_range\<close> returns is
  converted to 64 unsigned bits, \<^verbatim>\<open>-1UL\<close> is the word of all ones, and the
  subtraction wraps. The loop need not end (a call that moves nothing while \<open>len\<close> is
  positive repeats for ever): \<open>None\<close> is the run that does not return.
\<close>

partial_function (option) copy_loop ::
  "'k kernel \<Rightarrow> int \<Rightarrow> int \<Rightarrow> 64 word \<Rightarrow> 'k world \<Rightarrow> ('k, unit) result option" where
  "copy_loop K rfd wfd len w =
     (case c_copy_file_range K rfd wfd len w of
        (r, w') \<Rightarrow>
          if (word_of_int r :: 64 word) = - 1
          then Some (Inl (fs_error_get ''copy_file_range()'' w'), w')
          else if len - word_of_int r > 0
            then copy_loop K rfd wfd (len - word_of_int r) w'
            else Some (Inr (), w'))"

text \<open>
  \<open>copy_file\<close>. The destination is opened with two arguments, so \<open>k_open\<close> gets no
  mode. The results of the two final \<^verbatim>\<open>close\<close> calls are dropped.
\<close>

definition copy_file ::
  "'k kernel \<Rightarrow> string \<Rightarrow> string \<Rightarrow> 'k world \<Rightarrow> ('k, unit) result option" where
  "copy_file K target dest_path w =
     (case c_open K (c_str target) fs_omode_readonly None w of
        (rfd, w1) \<Rightarrow>
          if rfd = - 1 then Some (Inl (fs_error_get ''open()'' w1), w1)
          else
            (case c_open K (c_str dest_path) (fs_omode_writeonly OR fs_omode_create) None w1 of
               (wfd, w2) \<Rightarrow>
                 if wfd = - 1 then Some (Inl (fs_error_get ''open()'' w2), w2)
                 else
                   (case c_fstat K rfd (st_uninit w2) w2 of
                      (r, st, w3) \<Rightarrow>
                        if r \<noteq> - 1 then Some (Inl (fs_error_get ''fstat()'' w3), w3)
                        else
                          (case copy_loop K rfd wfd (st_size st) w3 of
                             None \<Rightarrow> None
                           | Some (Inl e, w4) \<Rightarrow> Some (Inl e, w4)
                           | Some (Inr u, w4) \<Rightarrow>
                               (case c_close K rfd w4 of
                                  (r1, w5) \<Rightarrow>
                                    (case c_close K wfd w5 of
                                       (r2, w6) \<Rightarrow> Some (Inr (), w6)))))))"

subsection \<open>Links, removal, directories, renaming\<close>

definition create_symlink :: "'k kernel \<Rightarrow> string \<Rightarrow> string \<Rightarrow> 'k world \<Rightarrow> ('k, unit) result" where
  "create_symlink K target link_path w =
     (case c_symlink K (c_str target) (c_str link_path) w of
        (ret, w') \<Rightarrow>
          if ret = - 1 then (Inl (fs_error_get ''symlink()'' w'), w')
          else (Inr (), w'))"

definition create_hardlink :: "'k kernel \<Rightarrow> string \<Rightarrow> string \<Rightarrow> 'k world \<Rightarrow> ('k, unit) result" where
  "create_hardlink K old_path new_path w =
     (case c_link K (c_str old_path) (c_str new_path) w of
        (ret, w') \<Rightarrow>
          if ret = - 1 then (Inl (fs_error_get ''link()'' w'), w')
          else (Inr (), w'))"

definition get_permissions :: "'k kernel \<Rightarrow> string \<Rightarrow> 'k world \<Rightarrow> ('k, 32 word) result" where
  "get_permissions K file w =
     (case c_stat K (c_str file) (st_uninit w) w of
        (r, st, w') \<Rightarrow>
          if r = - 1 then (Inl (fs_error_get ''stat()'' w'), w')
          else (Inr (st_mode st), w'))"

definition remove_file :: "'k kernel \<Rightarrow> string \<Rightarrow> 'k world \<Rightarrow> ('k, unit) result" where
  "remove_file K file w =
     (case c_unlink K (c_str file) w of
        (r, w') \<Rightarrow>
          if r = - 1 then (Inl (fs_error_get ''unlink()'' w'), w')
          else (Inr (), w'))"

definition remove_empty_directory :: "'k kernel \<Rightarrow> string \<Rightarrow> 'k world \<Rightarrow> ('k, unit) result" where
  "remove_empty_directory K dir w =
     (case c_remove K (c_str dir) w of
        (r, w') \<Rightarrow>
          if r = - 1 then (Inl (fs_error_get ''remove()'' w'), w')
          else (Inr (), w'))"

definition create_directory :: "'k kernel \<Rightarrow> string \<Rightarrow> 32 word \<Rightarrow> 'k world \<Rightarrow> ('k, unit) result" where
  "create_directory K dir mode w =
     (case c_mkdir K (c_str dir) mode w of
        (r, w') \<Rightarrow>
          if r = - 1 then (Inl (fs_error_get ''mkdir()'' w'), w')
          else (Inr (), w'))"

definition rename_path :: "'k kernel \<Rightarrow> string \<Rightarrow> string \<Rightarrow> 'k world \<Rightarrow> ('k, unit) result" where
  "rename_path K old_path new_path w =
     (case c_rename K (c_str old_path) (c_str new_path) w of
        (r, w') \<Rightarrow>
          if r = - 1 then (Inl (fs_error_get ''rename()'' w'), w')
          else (Inr (), w'))"

subsection \<open>Environment\<close>

text \<open>
  The environment functions take no kernel. \<open>is_env_exists\<close> has no \<^verbatim>\<open>throw\<close>;
  it has the result type of the others so that this can be stated.
\<close>

definition is_env_exists :: "string \<Rightarrow> 'k world \<Rightarrow> ('k, bool) result" where
  "is_env_exists key w = (Inr (c_getenv (c_str key) w \<noteq> None), w)"

definition current_directory :: "'k world \<Rightarrow> ('k, string) result" where
  "current_directory w =
     (case c_getenv ''PWD'' w of
        None \<Rightarrow> (Inl (fs_error_get ''getenv()'' w), w)
      | Some ret \<Rightarrow> (Inr ret, w))"

definition read_env :: "string \<Rightarrow> 'k world \<Rightarrow> ('k, string) result" where
  "read_env key w =
     (case c_getenv (c_str key) w of
        None \<Rightarrow> (Inl (fs_error_get ''getenv()'' w), w)
      | Some ret \<Rightarrow> (Inr ret, w))"

subsection \<open>File types\<close>

definition is_file_match :: "'k kernel \<Rightarrow> string \<Rightarrow> 32 word \<Rightarrow> 'k world \<Rightarrow> ('k, bool) result" where
  "is_file_match K file type w =
     (case c_lstat K (c_str file) (st_uninit w) w of
        (r, st, w') \<Rightarrow>
          if r = - 1 then (Inl (fs_error_get ''lstat()'' w'), w')
          else (Inr (st_mode st AND S_IFMT = type), w'))"

definition is_block_file :: "'k kernel \<Rightarrow> string \<Rightarrow> 'k world \<Rightarrow> ('k, bool) result" where
  "is_block_file K loc w = is_file_match K loc S_IFBLK w"

definition is_character_file :: "'k kernel \<Rightarrow> string \<Rightarrow> 'k world \<Rightarrow> ('k, bool) result" where
  "is_character_file K loc w = is_file_match K loc S_IFCHR w"

definition is_directory :: "'k kernel \<Rightarrow> string \<Rightarrow> 'k world \<Rightarrow> ('k, bool) result" where
  "is_directory K loc w = is_file_match K loc S_IFDIR w"

definition is_fifo :: "'k kernel \<Rightarrow> string \<Rightarrow> 'k world \<Rightarrow> ('k, bool) result" where
  "is_fifo K loc w = is_file_match K loc S_IFIFO w"

definition is_pipe :: "'k kernel \<Rightarrow> string \<Rightarrow> 'k world \<Rightarrow> ('k, bool) result" where
  "is_pipe K loc w = is_fifo K loc w"

definition is_symlink :: "'k kernel \<Rightarrow> string \<Rightarrow> 'k world \<Rightarrow> ('k, bool) result" where
  "is_symlink K loc w = is_file_match K loc S_IFLNK w"

definition is_regular_file :: "'k kernel \<Rightarrow> string \<Rightarrow> 'k world \<Rightarrow> ('k, bool) result" where
  "is_regular_file K loc w = is_file_match K loc S_IFREG w"

definition is_socket :: "'k kernel \<Rightarrow> string \<Rightarrow> 'k world \<Rightarrow> ('k, bool) result" where
  "is_socket K loc w = is_file_match K loc S_IFSOCK w"

definition get_file_type :: "'k kernel \<Rightarrow> string \<Rightarrow> 'k world \<Rightarrow> ('k, 32 word) result" where
  "get_file_type K file w =
     (case c_lstat K (c_str file) (st_uninit w) w of
        (r, st, w') \<Rightarrow>
          if r = - 1 then (Inl (fs_error_get ''lstat()'' w'), w')
          else (Inr (st_mode st AND S_IFMT), w'))"

section \<open>A reference kernel\<close>

text \<open>
  The functions of the header reach the system only through the calls of the kernel, so
  their properties are stated for every kernel. To run them on concrete inputs there is a
  small kernel in memory that follows
  the manual pages of the calls: a flat table of names that point to inodes, inodes that
  hold a mode and the bytes (for a symbolic link, its target), and a table of open file
  descriptions with their offsets. There is one user, who may do everything.
  \<open>chunk\<close> is the most that one \<^verbatim>\<open>copy_file_range\<close> call moves; \<open>junk_mode\<close> is
  what \<^verbatim>\<open>open\<close> finds in place of the mode when it creates a file and the caller
  passed none.
\<close>

record inode =
  i_mode :: "32 word"
  i_data :: string

record ofd =
  o_ino :: nat
  o_off :: nat
  o_flags :: "32 word"

record fsys =
  names :: "(string \<times> nat) list"
  inodes :: "inode list"
  fdt :: "ofd option list"
  chunk :: nat
  junk_mode :: "32 word"

definition i_type :: "fsys \<Rightarrow> nat \<Rightarrow> 32 word" where
  "i_type k i = i_mode (inodes k ! i) AND S_IFMT"

definition stat_of :: "fsys \<Rightarrow> nat \<Rightarrow> stat" where
  "stat_of k i =
     \<lparr>st_mode = i_mode (inodes k ! i), st_size = of_nat (length (i_data (inodes k ! i)))\<rparr>"

text \<open>
  Following symbolic links from a name, at most \<open>n\<close> of them: the name reached and the
  inode there, if any.
\<close>

fun walk :: "nat \<Rightarrow> fsys \<Rightarrow> string \<Rightarrow> int + string \<times> nat option" where
  "walk 0 k p = Inl ELOOP"
| "walk (Suc n) k p =
     (case map_of (names k) p of
        None \<Rightarrow> Inr (p, None)
      | Some i \<Rightarrow>
          if i_type k i = S_IFLNK then walk n k (i_data (inodes k ! i))
          else Inr (p, Some i))"

definition fd_lookup :: "fsys \<Rightarrow> int \<Rightarrow> ofd option" where
  "fd_lookup k fd = (if 0 \<le> fd \<and> nat fd < length (fdt k) then fdt k ! nat fd else None)"

text \<open>The lowest free descriptor.\<close>

definition fd_alloc :: "ofd option list \<Rightarrow> ofd \<Rightarrow> nat \<times> ofd option list" where
  "fd_alloc t d =
     (let n = length (takeWhile (\<lambda>x. x \<noteq> None) t)
      in (n, if n < length t then t[n := Some d] else t @ [Some d]))"

text \<open>Writing \<open>bs\<close> at offset \<open>off\<close> of the bytes \<open>old\<close>; a gap is filled with NULs.\<close>

definition put_at :: "nat \<Rightarrow> string \<Rightarrow> string \<Rightarrow> string" where
  "put_at off bs old =
     take off old @ replicate (off - length old) (CHR 0x00) @ bs @ drop (off + length bs) old"

definition set_data :: "fsys \<Rightarrow> nat \<Rightarrow> string \<Rightarrow> inode list" where
  "set_data k i bs = (inodes k)[i := (inodes k ! i)\<lparr>i_data := bs\<rparr>]"

definition ref_open :: "string \<Rightarrow> 32 word \<Rightarrow> 32 word option \<Rightarrow> fsys \<Rightarrow> (int + nat) \<times> fsys" where
  "ref_open p flags mode k =
     (if p = [] then (Inl ENOENT, k)
      else
        (case walk 8 k p of
           Inl e \<Rightarrow> (Inl e, k)
         | Inr (q, None) \<Rightarrow>
             if flags AND O_CREAT = 0 then (Inl ENOENT, k)
             else
               (let m = (case mode of None \<Rightarrow> junk_mode k | Some m \<Rightarrow> m);
                    ino = length (inodes k);
                    (fd, t) = fd_alloc (fdt k) \<lparr>o_ino = ino, o_off = 0, o_flags = flags\<rparr>
                in (Inr fd,
                    k\<lparr>names := (q, ino) # names k,
                      inodes := inodes k @ [\<lparr>i_mode = S_IFREG OR (m AND 0xFFF), i_data = []\<rparr>],
                      fdt := t\<rparr>))
         | Inr (q, Some i) \<Rightarrow>
             if flags AND O_CREAT \<noteq> 0 \<and> flags AND O_EXCL \<noteq> 0 then (Inl EEXIST, k)
             else if i_type k i = S_IFDIR \<and> flags AND O_ACCMODE \<noteq> O_RDONLY
               then (Inl EISDIR, k)
             else
               (let ins = (if flags AND O_TRUNC \<noteq> 0 \<and> flags AND O_ACCMODE \<noteq> O_RDONLY
                                \<and> i_type k i = S_IFREG
                           then set_data k i [] else inodes k);
                    (fd, t) = fd_alloc (fdt k) \<lparr>o_ino = i, o_off = 0, o_flags = flags\<rparr>
                in (Inr fd, k\<lparr>inodes := ins, fdt := t\<rparr>))))"

definition ref_close :: "int \<Rightarrow> fsys \<Rightarrow> (int + unit) \<times> fsys" where
  "ref_close fd k =
     (case fd_lookup k fd of
        None \<Rightarrow> (Inl EBADF, k)
      | Some d \<Rightarrow> (Inr (), k\<lparr>fdt := (fdt k)[nat fd := None]\<rparr>))"

definition ref_read :: "int \<Rightarrow> nat \<Rightarrow> fsys \<Rightarrow> (int + string) \<times> fsys" where
  "ref_read fd n k =
     (case fd_lookup k fd of
        None \<Rightarrow> (Inl EBADF, k)
      | Some d \<Rightarrow>
          if o_flags d AND O_ACCMODE = O_WRONLY then (Inl EBADF, k)
          else if i_type k (o_ino d) = S_IFDIR then (Inl EISDIR, k)
          else
            (let bs = take n (drop (o_off d) (i_data (inodes k ! o_ino d)))
             in (Inr bs, k\<lparr>fdt := (fdt k)[nat fd := Some (d\<lparr>o_off := o_off d + length bs\<rparr>)]\<rparr>)))"

definition ref_write :: "int \<Rightarrow> string \<Rightarrow> fsys \<Rightarrow> (int + nat) \<times> fsys" where
  "ref_write fd bs k =
     (case fd_lookup k fd of
        None \<Rightarrow> (Inl EBADF, k)
      | Some d \<Rightarrow>
          if o_flags d AND O_ACCMODE = O_RDONLY then (Inl EBADF, k)
          else
            (let old = i_data (inodes k ! o_ino d);
                 off = (if o_flags d AND O_APPEND = 0 then o_off d else length old)
             in (Inr (length bs),
                 k\<lparr>inodes := set_data k (o_ino d) (put_at off bs old),
                   fdt := (fdt k)[nat fd := Some (d\<lparr>o_off := off + length bs\<rparr>)]\<rparr>)))"

definition ref_stat :: "string \<Rightarrow> fsys \<Rightarrow> (int + stat) \<times> fsys" where
  "ref_stat p k =
     (if p = [] then (Inl ENOENT, k)
      else
        (case walk 8 k p of
           Inl e \<Rightarrow> (Inl e, k)
         | Inr (q, None) \<Rightarrow> (Inl ENOENT, k)
         | Inr (q, Some i) \<Rightarrow> (Inr (stat_of k i), k)))"

definition ref_lstat :: "string \<Rightarrow> fsys \<Rightarrow> (int + stat) \<times> fsys" where
  "ref_lstat p k =
     (case map_of (names k) p of
        None \<Rightarrow> (Inl ENOENT, k)
      | Some i \<Rightarrow> (Inr (stat_of k i), k))"

definition ref_fstat :: "int \<Rightarrow> fsys \<Rightarrow> (int + stat) \<times> fsys" where
  "ref_fstat fd k =
     (case fd_lookup k fd of
        None \<Rightarrow> (Inl EBADF, k)
      | Some d \<Rightarrow> (Inr (stat_of k (o_ino d)), k))"

text \<open>
  \<^verbatim>\<open>copy_file_range\<close> moves at most \<open>len\<close> bytes, at most \<open>chunk\<close> bytes and at
  most what the source has left after its offset, and advances both offsets by what it
  moved. It refuses a copy within one file.
\<close>

definition ref_copy_file_range :: "int \<Rightarrow> int \<Rightarrow> nat \<Rightarrow> fsys \<Rightarrow> (int + nat) \<times> fsys" where
  "ref_copy_file_range rfd wfd len k =
     (case fd_lookup k rfd of
        None \<Rightarrow> (Inl EBADF, k)
      | Some r \<Rightarrow>
          (case fd_lookup k wfd of
             None \<Rightarrow> (Inl EBADF, k)
           | Some d \<Rightarrow>
               if o_flags r AND O_ACCMODE = O_WRONLY then (Inl EBADF, k)
               else if o_flags d AND O_ACCMODE = O_RDONLY then (Inl EBADF, k)
               else if o_flags d AND O_APPEND \<noteq> 0 then (Inl EBADF, k)
               else if i_type k (o_ino r) \<noteq> S_IFREG then (Inl EINVAL, k)
               else if i_type k (o_ino d) \<noteq> S_IFREG then (Inl EINVAL, k)
               else if o_ino r = o_ino d then (Inl EINVAL, k)
               else
                 (let bs = take (min len (chunk k)) (drop (o_off r) (i_data (inodes k ! o_ino r)));
                      old = i_data (inodes k ! o_ino d)
                  in (Inr (length bs),
                      k\<lparr>inodes := set_data k (o_ino d) (put_at (o_off d) bs old),
                        fdt := (fdt k)
                          [nat rfd := Some (r\<lparr>o_off := o_off r + length bs\<rparr>),
                           nat wfd := Some (d\<lparr>o_off := o_off d + length bs\<rparr>)]\<rparr>))))"

definition ref_symlink :: "string \<Rightarrow> string \<Rightarrow> fsys \<Rightarrow> (int + unit) \<times> fsys" where
  "ref_symlink target link_path k =
     (if target = [] then (Inl ENOENT, k)
      else if link_path = [] then (Inl ENOENT, k)
      else
        (case map_of (names k) link_path of
           Some i \<Rightarrow> (Inl EEXIST, k)
         | None \<Rightarrow>
             (Inr (),
              k\<lparr>names := (link_path, length (inodes k)) # names k,
                inodes := inodes k @ [\<lparr>i_mode = S_IFLNK OR 0x1FF, i_data = target\<rparr>]\<rparr>)))"

definition ref_link :: "string \<Rightarrow> string \<Rightarrow> fsys \<Rightarrow> (int + unit) \<times> fsys" where
  "ref_link old_path new_path k =
     (case map_of (names k) old_path of
        None \<Rightarrow> (Inl ENOENT, k)
      | Some i \<Rightarrow>
          if new_path = [] then (Inl ENOENT, k)
          else if map_of (names k) new_path \<noteq> None then (Inl EEXIST, k)
          else if i_type k i = S_IFDIR then (Inl EPERM, k)
          else (Inr (), k\<lparr>names := (new_path, i) # names k\<rparr>))"

definition ref_unlink :: "string \<Rightarrow> fsys \<Rightarrow> (int + unit) \<times> fsys" where
  "ref_unlink p k =
     (case map_of (names k) p of
        None \<Rightarrow> (Inl ENOENT, k)
      | Some i \<Rightarrow>
          if i_type k i = S_IFDIR then (Inl EISDIR, k)
          else (Inr (), k\<lparr>names := filter (\<lambda>e. fst e \<noteq> p) (names k)\<rparr>))"

text \<open>The names below the directory \<open>p\<close>.\<close>

definition below :: "string \<Rightarrow> fsys \<Rightarrow> (string \<times> nat) list" where
  "below p k = filter (\<lambda>e. take (Suc (length p)) (fst e) = p @ ''/'') (names k)"

definition ref_remove :: "string \<Rightarrow> fsys \<Rightarrow> (int + unit) \<times> fsys" where
  "ref_remove p k =
     (case map_of (names k) p of
        None \<Rightarrow> (Inl ENOENT, k)
      | Some i \<Rightarrow>
          if i_type k i = S_IFDIR \<and> below p k \<noteq> [] then (Inl ENOTEMPTY, k)
          else (Inr (), k\<lparr>names := filter (\<lambda>e. fst e \<noteq> p) (names k)\<rparr>))"

definition ref_mkdir :: "string \<Rightarrow> 32 word \<Rightarrow> fsys \<Rightarrow> (int + unit) \<times> fsys" where
  "ref_mkdir p mode k =
     (if p = [] then (Inl ENOENT, k)
      else
        (case map_of (names k) p of
           Some i \<Rightarrow> (Inl EEXIST, k)
         | None \<Rightarrow>
             (Inr (),
              k\<lparr>names := (p, length (inodes k)) # names k,
                inodes := inodes k @ [\<lparr>i_mode = S_IFDIR OR (mode AND 0xFFF), i_data = []\<rparr>]\<rparr>)))"

text \<open>
  \<^verbatim>\<open>rename\<close> replaces what the new name pointed to; the names below a renamed
  directory move with it.
\<close>

definition renamed :: "string \<Rightarrow> string \<Rightarrow> string \<times> nat \<Rightarrow> string \<times> nat" where
  "renamed old_path new_path e =
     (if fst e = old_path then (new_path, snd e)
      else if take (Suc (length old_path)) (fst e) = old_path @ ''/''
        then (new_path @ drop (length old_path) (fst e), snd e)
      else e)"

definition ref_rename :: "string \<Rightarrow> string \<Rightarrow> fsys \<Rightarrow> (int + unit) \<times> fsys" where
  "ref_rename old_path new_path k =
     (case map_of (names k) old_path of
        None \<Rightarrow> (Inl ENOENT, k)
      | Some i \<Rightarrow>
          if new_path = [] then (Inl ENOENT, k)
          else if new_path = old_path then (Inr (), k)
          else
            (Inr (),
             k\<lparr>names := map (renamed old_path new_path)
                          (filter (\<lambda>e. fst e \<noteq> new_path) (names k))\<rparr>))"

definition ref_kernel :: "fsys kernel" where
  "ref_kernel =
     \<lparr>k_open = ref_open, k_close = ref_close, k_read = ref_read, k_write = ref_write,
      k_stat = ref_stat, k_lstat = ref_lstat, k_fstat = ref_fstat,
      k_copy_file_range = ref_copy_file_range, k_symlink = ref_symlink, k_link = ref_link,
      k_unlink = ref_unlink, k_remove = ref_remove, k_mkdir = ref_mkdir,
      k_rename = ref_rename\<rparr>"

text \<open>The bytes under a name, for reading a state.\<close>

definition data_at :: "fsys \<Rightarrow> string \<Rightarrow> string option" where
  "data_at k p =
     (case map_of (names k) p of
        None \<Rightarrow> None
      | Some i \<Rightarrow> Some (i_data (inodes k ! i)))"

text \<open>
  Two kernels with a fault: one whose \<^verbatim>\<open>lstat\<close> and \<^verbatim>\<open>fstat\<close> report an I/O
  error, and one whose \<^verbatim>\<open>write\<close> takes a single byte per call.
\<close>

definition eio_kernel :: "fsys kernel" where
  "eio_kernel = ref_kernel\<lparr>k_lstat := \<lambda>p k. (Inl EIO, k), k_fstat := \<lambda>fd k. (Inl EIO, k)\<rparr>"

definition slow_kernel :: "fsys kernel" where
  "slow_kernel = ref_kernel\<lparr>k_write := \<lambda>fd bs k. ref_write fd (take 1 bs) k\<rparr>"

subsection \<open>A sample world\<close>

text \<open>
  A terminal on the three standard descriptors; regular files of 0, 1, 13 and 20 bytes; a
  directory, a FIFO, a symbolic link to a file and one to itself. One call of
  \<^verbatim>\<open>copy_file_range\<close> moves at most 4 bytes. \<^verbatim>\<open>HOME\<close> is set, \<^verbatim>\<open>PWD\<close> is not.
\<close>

definition fs0 :: fsys where
  "fs0 =
     \<lparr>names = [(''tty'', 0), (''empty'', 1), (''one'', 2), (''big'', 3), (''old'', 4),
               (''dir'', 5), (''fifo'', 6), (''lnk'', 7), (''loop'', 8)],
      inodes = [\<lparr>i_mode = S_IFCHR OR 0x190, i_data = []\<rparr>,
                \<lparr>i_mode = S_IFREG OR 0x1A4, i_data = []\<rparr>,
                \<lparr>i_mode = S_IFREG OR 0x1A4, i_data = ''a''\<rparr>,
                \<lparr>i_mode = S_IFREG OR 0x1A4, i_data = ''Hello, world!''\<rparr>,
                \<lparr>i_mode = S_IFREG OR 0x1A4, i_data = ''0123456789ABCDEFGHIJ''\<rparr>,
                \<lparr>i_mode = S_IFDIR OR 0x1ED, i_data = []\<rparr>,
                \<lparr>i_mode = S_IFIFO OR 0x1A4, i_data = []\<rparr>,
                \<lparr>i_mode = S_IFLNK OR 0x1FF, i_data = ''one''\<rparr>,
                \<lparr>i_mode = S_IFLNK OR 0x1FF, i_data = ''loop''\<rparr>],
      fdt = [Some \<lparr>o_ino = 0, o_off = 0, o_flags = O_RDWR\<rparr>,
             Some \<lparr>o_ino = 0, o_off = 0, o_flags = O_RDWR\<rparr>,
             Some \<lparr>o_ino = 0, o_off = 0, o_flags = O_RDWR\<rparr>],
      chunk = 4,
      junk_mode = 0x1A4\<rparr>"

definition w0 :: "fsys world" where
  "w0 =
     \<lparr>errno = 0, kern = fs0, environ = [''HOME'' \<mapsto> ''/root''],
      st_uninit = \<lparr>st_mode = 0, st_size = 13\<rparr>\<rparr>"

section \<open>The calls of the header as data\<close>








section \<open>Unfolding rules\<close>

declare copy_loop.simps [code]

lemmas stat_h_defs =
  S_IRUSR_def S_IWUSR_def S_IXUSR_def S_IRWXU_def S_IRGRP_def S_IWGRP_def S_IXGRP_def
  S_IRWXG_def S_IROTH_def S_IWOTH_def S_IXOTH_def S_IRWXO_def S_ISUID_def S_ISGID_def
  S_ISVTX_def S_IFMT_def S_IFSOCK_def S_IFLNK_def S_IFREG_def S_IFBLK_def S_IFDIR_def
  S_IFCHR_def S_IFIFO_def

lemmas fcntl_h_defs =
  O_RDONLY_def O_WRONLY_def O_RDWR_def O_ACCMODE_def O_CREAT_def O_EXCL_def O_TRUNC_def
  O_APPEND_def

lemmas errno_h_defs =
  ENOENT_def EIO_def EBADF_def EEXIST_def ENOTDIR_def EISDIR_def EINVAL_def ENOTEMPTY_def
  ELOOP_def EPERM_def

lemmas fs_omode_defs =
  fs_omode_append_def fs_omode_create_def fs_omode_excl_def fs_omode_readonly_def
  fs_omode_read_write_def fs_omode_truncate_def fs_omode_writeonly_def

lemmas fs_perms_defs =
  fs_perms_none_def fs_perms_owner_read_def fs_perms_owner_write_def fs_perms_owner_exec_def
  fs_perms_owner_all_def fs_perms_group_read_def fs_perms_group_write_def
  fs_perms_group_exec_def fs_perms_group_all_def fs_perms_others_read_def
  fs_perms_others_write_def fs_perms_others_exec_def fs_perms_others_all_def
  fs_perms_all_def fs_perms_set_uid_def fs_perms_set_gid_def fs_perms_sticky_bit_def
  fs_perms_mask_def fs_perms_unknown_def

lemmas libc_defs =
  libc_ret_def stat_ret_def c_open_def c_close_def c_read_def c_write_def c_stat_def
  c_lstat_def c_fstat_def c_copy_file_range_def c_symlink_def c_link_def c_unlink_def
  c_remove_def c_mkdir_def c_rename_def c_getenv_def

lemmas ref_defs =
  ref_kernel_def ref_open_def ref_close_def ref_read_def ref_write_def ref_stat_def
  ref_lstat_def ref_fstat_def ref_copy_file_range_def ref_symlink_def ref_link_def
  ref_unlink_def ref_remove_def ref_mkdir_def ref_rename_def renamed_def below_def
  set_data_def put_at_def fd_alloc_def fd_lookup_def stat_of_def i_type_def

lemmas fs_defs =
  open_file_def open_file_mode_def close_file_def read_object_def write_object_def
  file_size_def file_size_fd_def is_file_exists_def is_directory_exists_def
  is_symlink_exists_def create_symlink_def create_hardlink_def get_permissions_def
  remove_file_def remove_empty_directory_def create_directory_def rename_path_def
  is_env_exists_def current_directory_def read_env_def is_file_match_def is_block_file_def
  is_character_file_def is_directory_def is_fifo_def is_pipe_def is_symlink_def
  is_regular_file_def is_socket_def get_file_type_def

section \<open>Properties\<close>

subsection \<open>Strings passed to the system\<close>

lemma c_str_no_nul: "CHR 0x00 \<notin> set s \<Longrightarrow> c_str s = s"
  by (auto simp add: c_str_def takeWhile_eq_all_conv)

subsection \<open>Return codes of the C library\<close>

lemma libc_ret_Inl: "libc_ret f (Inl e, k') w = (- 1, w\<lparr>errno := e, kern := k'\<rparr>)"
  by (simp add: libc_ret_def)

lemma libc_ret_Inr: "libc_ret f (Inr v, k') w = (f v, w\<lparr>kern := k'\<rparr>)"
  by (simp add: libc_ret_def)


subsection \<open>Permission bits\<close>

text \<open>
  Claim C8. \<open>fs_perms::mask\<close> is exactly the bitwise OR of the nine read, write and
  execute bits of owner, group and others with set-uid, set-gid and the sticky bit (the
  twelve low bits and no other), and \<open>fs_perms::unknown\<close> fails the mask test:
  \<open>unknown AND mask\<close> differs from \<open>unknown\<close>.
\<close>

theorem fs_perms_mask_bits:
  "fs_perms_mask =
     fs_perms_owner_read OR fs_perms_owner_write OR fs_perms_owner_exec OR
     fs_perms_group_read OR fs_perms_group_write OR fs_perms_group_exec OR
     fs_perms_others_read OR fs_perms_others_write OR fs_perms_others_exec OR
     fs_perms_set_uid OR fs_perms_set_gid OR fs_perms_sticky_bit
   \<and> fs_perms_mask = 0xFFF
   \<and> fs_perms_unknown AND fs_perms_mask \<noteq> fs_perms_unknown"
  by (simp add: fs_perms_defs stat_h_defs)

subsection \<open>Environment\<close>

text \<open>
  Claim C9. For every key and every world, \<open>is_env_exists\<close> does not throw and returns
  \<open>False\<close> exactly when the variable is unset, and \<open>read_env\<close> on an unset key throws the
  error built from \<^verbatim>\<open>errno\<close> with the label \<^verbatim>\<open>getenv()\<close>; when the variable is set,
  \<open>is_env_exists\<close> returns \<open>True\<close> and \<open>read_env\<close> returns its value. Neither changes the
  world. The variable is the one the C library looks up, \<open>c_str key\<close>, which is \<open>key\<close>
  itself when \<open>key\<close> has no NUL (\<open>c_str_no_nul\<close>).
\<close>

theorem env_exists_and_read_env:
  "(case environ w (c_str key) of
      None \<Rightarrow>
        is_env_exists key w = (Inr False, w) \<and>
        read_env key w = (Inl (System_error (errno w) Generic_category ''getenv()''), w)
    | Some v \<Rightarrow>
        is_env_exists key w = (Inr True, w) \<and>
        read_env key w = (Inr v, w))"
  by (simp add: is_env_exists_def read_env_def c_getenv_def fs_error_get_def
      split: option.split)

text \<open>In the sample world \<^verbatim>\<open>PWD\<close> is unset and \<^verbatim>\<open>HOME\<close> is \<^verbatim>\<open>/root\<close>.\<close>

theorem env_exists_and_read_env_witness:
  "fst (is_env_exists ''PWD'' w0) = Inr False
   \<and> fst (read_env ''PWD'' w0) = Inl (System_error 0 Generic_category ''getenv()'')
   \<and> fst (is_env_exists ''HOME'' w0) = Inr True
   \<and> fst (read_env ''HOME'' w0) = Inr ''/root''"
  using env_exists_and_read_env [where w = w0 and key = "''PWD''"]
    env_exists_and_read_env [where w = w0 and key = "''HOME''"]
  by (simp add: w0_def c_str_def)

subsection \<open>Reading and writing\<close>

text \<open>
  Claim C7. \<open>read_object\<close> and \<open>write_object\<close> return the number of bytes that the call
  moved, whatever it is: the length of what \<^verbatim>\<open>read\<close> delivered, which may be less than
  \<open>nbytes\<close> or zero, and the count that \<^verbatim>\<open>write\<close> reports, which may be less than
  \<open>nbytes\<close>. Neither is an error. Each throws exactly when the call of the C library
  returns \<open>-1\<close>, which is when the system call fails, and the error carries that call's
  error number.
\<close>

theorem read_write_object_partial:
  "read_object K fd ptr nbytes w =
     (case k_read K fd nbytes (kern w) of
        (Inl e, k') \<Rightarrow>
          (Inl (System_error e Generic_category ''read()''), w\<lparr>errno := e, kern := k'\<rparr>)
      | (Inr bs, k') \<Rightarrow>
          (Inr (int (length bs), bs @ drop (length bs) ptr), w\<lparr>kern := k'\<rparr>))
   \<and> write_object K fd ptr nbytes w =
     (case k_write K fd (take nbytes ptr) (kern w) of
        (Inl e, k') \<Rightarrow>
          (Inl (System_error e Generic_category ''write()''), w\<lparr>errno := e, kern := k'\<rparr>)
      | (Inr n, k') \<Rightarrow> (Inr (int n), w\<lparr>kern := k'\<rparr>))
   \<and> ((\<exists>e. fst (read_object K fd ptr nbytes w) = Inl e)
        = (fst (c_read K fd ptr nbytes w) = - 1))
   \<and> ((\<exists>e. fst (write_object K fd ptr nbytes w) = Inl e)
        = (fst (c_write K fd ptr nbytes w) = - 1))"
  by (auto simp add: read_object_def write_object_def libc_defs fs_error_get_def
      split: prod.split sum.split)

text \<open>
  On the file of one byte, a read of ten bytes returns 1; on the empty file it returns 0;
  on a descriptor that is not open it throws with \<^verbatim>\<open>EBADF\<close>. A write of five bytes to
  the kernel that takes one byte per call returns 1.
\<close>

theorem read_write_object_partial_witness:
  "fst (read_object ref_kernel 3 ''..........'' 10
          (snd (open_file ref_kernel ''one'' fs_omode_readonly w0)))
     = Inr (1, ''a.........'')
   \<and> fst (read_object ref_kernel 3 ''..........'' 10
          (snd (open_file ref_kernel ''empty'' fs_omode_readonly w0)))
     = Inr (0, ''..........'')
   \<and> fst (read_object ref_kernel 7 ''..........'' 10 w0)
     = Inl (System_error 9 Generic_category ''read()'')
   \<and> fst (write_object slow_kernel 3 ''hello'' 5
          (snd (open_file ref_kernel ''one'' fs_omode_writeonly w0)))
     = Inr 1"
  unfolding read_write_object_partial [THEN conjunct1]
    read_write_object_partial [THEN conjunct2, THEN conjunct1]
  by code_simp

subsection \<open>Existence by type\<close>

lemma is_file_exists_eq:
  "is_file_exists K path w =
     (case k_stat K (c_str path) (kern w) of
        (Inl e, k') \<Rightarrow>
          if e = ENOENT then (Inr False, w\<lparr>errno := e, kern := k'\<rparr>)
          else (Inl (System_error e Generic_category ''stat()''), w\<lparr>errno := e, kern := k'\<rparr>)
      | (Inr st, k') \<Rightarrow> (Inr (st_mode st AND S_IFMT = S_IFREG), w\<lparr>kern := k'\<rparr>))"
proof (cases "k_stat K (c_str path) (kern w)")
  case (Pair r k')
  then show ?thesis
    by (cases r) (simp_all add: is_file_exists_def libc_defs fs_error_get_def)
qed

lemma is_directory_exists_eq:
  "is_directory_exists K path w =
     (case k_stat K (c_str path) (kern w) of
        (Inl e, k') \<Rightarrow>
          if e = ENOENT then (Inr False, w\<lparr>errno := e, kern := k'\<rparr>)
          else (Inl (System_error e Generic_category ''stat()''), w\<lparr>errno := e, kern := k'\<rparr>)
      | (Inr st, k') \<Rightarrow> (Inr (st_mode st AND S_IFMT = S_IFDIR), w\<lparr>kern := k'\<rparr>))"
proof (cases "k_stat K (c_str path) (kern w)")
  case (Pair r k')
  then show ?thesis
    by (cases r) (simp_all add: is_directory_exists_def libc_defs fs_error_get_def)
qed

lemma is_symlink_exists_eq:
  "is_symlink_exists K path w =
     (case k_lstat K (c_str path) (kern w) of
        (Inl e, k') \<Rightarrow>
          if e = ENOENT then (Inr False, w\<lparr>errno := e, kern := k'\<rparr>)
          else (Inl (System_error e Generic_category ''lstat()''), w\<lparr>errno := e, kern := k'\<rparr>)
      | (Inr st, k') \<Rightarrow> (Inr (st_mode st AND S_IFMT = S_IFLNK), w\<lparr>kern := k'\<rparr>))"
proof (cases "k_lstat K (c_str path) (kern w)")
  case (Pair r k')
  then show ?thesis
    by (cases r) (simp_all add: is_symlink_exists_def libc_defs fs_error_get_def)
qed

text \<open>
  Claim C4. For every path, each of \<open>is_file_exists\<close>, \<open>is_directory_exists\<close> and
  \<open>is_symlink_exists\<close> returns \<open>False\<close> when its stat call fails with \<^verbatim>\<open>ENOENT\<close>, throws
  the error with that call's error number when it fails with anything else, and
  otherwise returns whether the type field of the mode, masked with \<^verbatim>\<open>S_IFMT\<close>, is the
  wanted type. The first two ask \<^verbatim>\<open>stat\<close>, which follows symbolic links; the third asks
  \<^verbatim>\<open>lstat\<close>, which does not.
\<close>

theorem exists_predicates:
  "is_file_exists K path w =
     (case k_stat K (c_str path) (kern w) of
        (Inl e, k') \<Rightarrow>
          if e = ENOENT then (Inr False, w\<lparr>errno := e, kern := k'\<rparr>)
          else (Inl (System_error e Generic_category ''stat()''), w\<lparr>errno := e, kern := k'\<rparr>)
      | (Inr st, k') \<Rightarrow> (Inr (st_mode st AND S_IFMT = S_IFREG), w\<lparr>kern := k'\<rparr>))
   \<and> is_directory_exists K path w =
     (case k_stat K (c_str path) (kern w) of
        (Inl e, k') \<Rightarrow>
          if e = ENOENT then (Inr False, w\<lparr>errno := e, kern := k'\<rparr>)
          else (Inl (System_error e Generic_category ''stat()''), w\<lparr>errno := e, kern := k'\<rparr>)
      | (Inr st, k') \<Rightarrow> (Inr (st_mode st AND S_IFMT = S_IFDIR), w\<lparr>kern := k'\<rparr>))
   \<and> is_symlink_exists K path w =
     (case k_lstat K (c_str path) (kern w) of
        (Inl e, k') \<Rightarrow>
          if e = ENOENT then (Inr False, w\<lparr>errno := e, kern := k'\<rparr>)
          else (Inl (System_error e Generic_category ''lstat()''), w\<lparr>errno := e, kern := k'\<rparr>)
      | (Inr st, k') \<Rightarrow> (Inr (st_mode st AND S_IFMT = S_IFLNK), w\<lparr>kern := k'\<rparr>))"
  using is_file_exists_eq [of K path w] is_directory_exists_eq [of K path w]
    is_symlink_exists_eq [of K path w]
  by blast

text \<open>
  In the sample world: a name that does not exist gives \<open>False\<close> three times; the link
  that points to itself makes \<^verbatim>\<open>stat\<close> fail with \<^verbatim>\<open>ELOOP\<close>, which is thrown; the link to
  a regular file is a regular file for \<open>is_file_exists\<close> and a link for
  \<open>is_symlink_exists\<close>; a regular file is no directory; and an \<^verbatim>\<open>lstat\<close> that fails
  with \<^verbatim>\<open>EIO\<close> makes \<open>is_symlink_exists\<close> throw.
\<close>

theorem exists_predicates_witness:
  "fst (is_file_exists ref_kernel ''nofile'' w0) = Inr False
   \<and> fst (is_directory_exists ref_kernel ''nofile'' w0) = Inr False
   \<and> fst (is_symlink_exists ref_kernel ''nofile'' w0) = Inr False
   \<and> fst (is_file_exists ref_kernel ''loop'' w0) = Inl (System_error 40 Generic_category ''stat()'')
   \<and> fst (is_file_exists ref_kernel ''lnk'' w0) = Inr True
   \<and> fst (is_symlink_exists ref_kernel ''lnk'' w0) = Inr True
   \<and> fst (is_symlink_exists ref_kernel ''one'' w0) = Inr False
   \<and> fst (is_directory_exists ref_kernel ''dir'' w0) = Inr True
   \<and> fst (is_directory_exists ref_kernel ''one'' w0) = Inr False
   \<and> fst (is_symlink_exists eio_kernel ''lnk'' w0) = Inl (System_error 5 Generic_category ''lstat()'')"
  unfolding exists_predicates [THEN conjunct1]
    exists_predicates [THEN conjunct2, THEN conjunct1]
    exists_predicates [THEN conjunct2, THEN conjunct2]
  by code_simp

subsection \<open>Type predicates\<close>

text \<open>
  Claim C5. When \<^verbatim>\<open>lstat\<close> fails on the path, with whatever error number (that of a
  path that does not exist included), each of \<open>is_block_file\<close>, \<open>is_character_file\<close>,
  \<open>is_directory\<close>, \<open>is_fifo\<close>, \<open>is_pipe\<close>, \<open>is_symlink\<close>, \<open>is_regular_file\<close> and
  \<open>is_socket\<close>, and \<open>is_file_match\<close> below them, throws the error with that number and
  the label \<^verbatim>\<open>lstat()\<close>; none returns \<open>False\<close>.
\<close>

theorem type_predicates_raise:
  assumes "k_lstat K (c_str loc) (kern w) = (Inl e, k')"
  shows "is_file_match K loc type w =
           (Inl (System_error e Generic_category ''lstat()''), w\<lparr>errno := e, kern := k'\<rparr>)
     \<and> is_block_file K loc w =
           (Inl (System_error e Generic_category ''lstat()''), w\<lparr>errno := e, kern := k'\<rparr>)
     \<and> is_character_file K loc w =
           (Inl (System_error e Generic_category ''lstat()''), w\<lparr>errno := e, kern := k'\<rparr>)
     \<and> is_directory K loc w =
           (Inl (System_error e Generic_category ''lstat()''), w\<lparr>errno := e, kern := k'\<rparr>)
     \<and> is_fifo K loc w =
           (Inl (System_error e Generic_category ''lstat()''), w\<lparr>errno := e, kern := k'\<rparr>)
     \<and> is_pipe K loc w =
           (Inl (System_error e Generic_category ''lstat()''), w\<lparr>errno := e, kern := k'\<rparr>)
     \<and> is_symlink K loc w =
           (Inl (System_error e Generic_category ''lstat()''), w\<lparr>errno := e, kern := k'\<rparr>)
     \<and> is_regular_file K loc w =
           (Inl (System_error e Generic_category ''lstat()''), w\<lparr>errno := e, kern := k'\<rparr>)
     \<and> is_socket K loc w =
           (Inl (System_error e Generic_category ''lstat()''), w\<lparr>errno := e, kern := k'\<rparr>)"
  using assms by (simp add: fs_defs libc_defs fs_error_get_def)

text \<open>A name that does not exist: \<^verbatim>\<open>lstat\<close> fails with \<^verbatim>\<open>ENOENT\<close>, which is 2.\<close>

theorem type_predicates_raise_witness:
  "k_lstat ref_kernel (c_str ''nofile'') (kern w0) = (Inl ENOENT, fs0)
   \<and> fst (is_regular_file ref_kernel ''nofile'' w0) = Inl (System_error 2 Generic_category ''lstat()'')
   \<and> fst (is_directory ref_kernel ''nofile'' w0) = Inl (System_error 2 Generic_category ''lstat()'')
   \<and> fst (is_pipe ref_kernel ''nofile'' w0) = Inl (System_error 2 Generic_category ''lstat()'')"
proof -
  have h: "k_lstat ref_kernel (c_str ''nofile'') (kern w0) = (Inl ENOENT, fs0)"
    by code_simp
  show ?thesis
    using h type_predicates_raise [OF h] by (simp add: ENOENT_def)
qed

lemma is_pipe_is_fifo: "is_pipe = is_fifo"
  by (intro ext) (simp add: is_pipe_def)

text \<open>
  Claim C6. When \<^verbatim>\<open>lstat\<close> succeeds on the path, \<open>get_file_type\<close> returns the masked
  type field and each single-type predicate returns \<open>True\<close> exactly when \<open>get_file_type\<close>
  returns that predicate's constant. The constants of the seven types are distinct, so
  at most one of the predicates is true: any two of them that are true on the path are
  the same predicate (\<open>is_pipe\<close> is \<open>is_fifo\<close>, by its definition). So for an object of
  a given type the predicate of that type is true and all others are false.
\<close>

theorem type_predicates_agree:
  assumes "k_lstat K (c_str file) (kern w) = (Inr st, k')"
  shows "fst (get_file_type K file w) = Inr (st_mode st AND S_IFMT)
     \<and> fst (is_block_file K file w) = Inr (fst (get_file_type K file w) = Inr S_IFBLK)
     \<and> fst (is_character_file K file w) = Inr (fst (get_file_type K file w) = Inr S_IFCHR)
     \<and> fst (is_directory K file w) = Inr (fst (get_file_type K file w) = Inr S_IFDIR)
     \<and> fst (is_fifo K file w) = Inr (fst (get_file_type K file w) = Inr S_IFIFO)
     \<and> fst (is_pipe K file w) = Inr (fst (get_file_type K file w) = Inr S_IFIFO)
     \<and> fst (is_symlink K file w) = Inr (fst (get_file_type K file w) = Inr S_IFLNK)
     \<and> fst (is_regular_file K file w) = Inr (fst (get_file_type K file w) = Inr S_IFREG)
     \<and> fst (is_socket K file w) = Inr (fst (get_file_type K file w) = Inr S_IFSOCK)
     \<and> distinct [S_IFBLK, S_IFCHR, S_IFDIR, S_IFIFO, S_IFLNK, S_IFREG, S_IFSOCK]
     \<and> (\<forall>p \<in> set [is_block_file, is_character_file, is_directory, is_fifo, is_pipe,
                    is_symlink, is_regular_file, is_socket].
         \<forall>q \<in> set [is_block_file, is_character_file, is_directory, is_fifo, is_pipe,
                    is_symlink, is_regular_file, is_socket].
           fst (p K file w) = Inr True \<and> fst (q K file w) = Inr True \<longrightarrow> p = q)"
proof -
  have eqs: "fst (get_file_type K file w) = Inr (st_mode st AND S_IFMT)"
    "fst (is_block_file K file w) = Inr (st_mode st AND S_IFMT = S_IFBLK)"
    "fst (is_character_file K file w) = Inr (st_mode st AND S_IFMT = S_IFCHR)"
    "fst (is_directory K file w) = Inr (st_mode st AND S_IFMT = S_IFDIR)"
    "fst (is_fifo K file w) = Inr (st_mode st AND S_IFMT = S_IFIFO)"
    "fst (is_pipe K file w) = Inr (st_mode st AND S_IFMT = S_IFIFO)"
    "fst (is_symlink K file w) = Inr (st_mode st AND S_IFMT = S_IFLNK)"
    "fst (is_regular_file K file w) = Inr (st_mode st AND S_IFMT = S_IFREG)"
    "fst (is_socket K file w) = Inr (st_mode st AND S_IFMT = S_IFSOCK)"
    using assms by (simp_all add: fs_defs libc_defs)
  have d: "distinct [S_IFBLK, S_IFCHR, S_IFDIR, S_IFIFO, S_IFLNK, S_IFREG, S_IFSOCK]"
    by (simp add: stat_h_defs)
  have d': "distinct [S_IFSOCK, S_IFREG, S_IFLNK, S_IFIFO, S_IFDIR, S_IFCHR, S_IFBLK]"
    by (simp add: stat_h_defs)
  have one: "\<forall>p \<in> set [is_block_file, is_character_file, is_directory, is_fifo, is_pipe,
                    is_symlink, is_regular_file, is_socket].
         \<forall>q \<in> set [is_block_file, is_character_file, is_directory, is_fifo, is_pipe,
                    is_symlink, is_regular_file, is_socket].
           fst (p K file w) = Inr True \<and> fst (q K file w) = Inr True \<longrightarrow> p = q"
  proof -
    consider "st_mode st AND S_IFMT = S_IFBLK" | "st_mode st AND S_IFMT = S_IFCHR"
      | "st_mode st AND S_IFMT = S_IFDIR" | "st_mode st AND S_IFMT = S_IFIFO"
      | "st_mode st AND S_IFMT = S_IFLNK" | "st_mode st AND S_IFMT = S_IFREG"
      | "st_mode st AND S_IFMT = S_IFSOCK"
      | "st_mode st AND S_IFMT \<noteq> S_IFBLK \<and> st_mode st AND S_IFMT \<noteq> S_IFCHR
         \<and> st_mode st AND S_IFMT \<noteq> S_IFDIR \<and> st_mode st AND S_IFMT \<noteq> S_IFIFO
         \<and> st_mode st AND S_IFMT \<noteq> S_IFLNK \<and> st_mode st AND S_IFMT \<noteq> S_IFREG
         \<and> st_mode st AND S_IFMT \<noteq> S_IFSOCK"
      by blast
    then show ?thesis
    proof cases
      case 1
      with d d' show ?thesis by (simp add: eqs)
    next
      case 2
      with d d' show ?thesis by (simp add: eqs)
    next
      case 3
      with d d' show ?thesis by (simp add: eqs)
    next
      case 4
      with d d' show ?thesis by (simp add: eqs is_pipe_is_fifo)
    next
      case 5
      with d d' show ?thesis by (simp add: eqs)
    next
      case 6
      with d d' show ?thesis by (simp add: eqs)
    next
      case 7
      with d d' show ?thesis by (simp add: eqs)
    next
      case 8
      then show ?thesis by (simp add: eqs)
    qed
  qed
  have results: "fst (get_file_type K file w) = Inr (st_mode st AND S_IFMT)
     \<and> fst (is_block_file K file w) = Inr (fst (get_file_type K file w) = Inr S_IFBLK)
     \<and> fst (is_character_file K file w) = Inr (fst (get_file_type K file w) = Inr S_IFCHR)
     \<and> fst (is_directory K file w) = Inr (fst (get_file_type K file w) = Inr S_IFDIR)
     \<and> fst (is_fifo K file w) = Inr (fst (get_file_type K file w) = Inr S_IFIFO)
     \<and> fst (is_pipe K file w) = Inr (fst (get_file_type K file w) = Inr S_IFIFO)
     \<and> fst (is_symlink K file w) = Inr (fst (get_file_type K file w) = Inr S_IFLNK)
     \<and> fst (is_regular_file K file w) = Inr (fst (get_file_type K file w) = Inr S_IFREG)
     \<and> fst (is_socket K file w) = Inr (fst (get_file_type K file w) = Inr S_IFSOCK)"
    by (simp add: eqs)
  from results d one show ?thesis
    by blast
qed

text \<open>
  The directory and the FIFO of the sample world. On the FIFO both \<open>is_fifo\<close> and
  \<open>is_pipe\<close> are true, and they are one predicate.
\<close>

theorem type_predicates_agree_witness:
  "k_lstat ref_kernel (c_str ''dir'') (kern w0) = (Inr \<lparr>st_mode = 0x41ED, st_size = 0\<rparr>, fs0)
   \<and> fst (get_file_type ref_kernel ''dir'' w0) = Inr S_IFDIR
   \<and> fst (is_directory ref_kernel ''dir'' w0) = Inr True
   \<and> fst (is_regular_file ref_kernel ''dir'' w0) = Inr False
   \<and> fst (is_symlink ref_kernel ''dir'' w0) = Inr False
   \<and> fst (is_fifo ref_kernel ''dir'' w0) = Inr False
   \<and> fst (is_pipe ref_kernel ''dir'' w0) = Inr False
   \<and> fst (is_block_file ref_kernel ''dir'' w0) = Inr False
   \<and> fst (is_character_file ref_kernel ''dir'' w0) = Inr False
   \<and> fst (is_socket ref_kernel ''dir'' w0) = Inr False
   \<and> k_lstat ref_kernel (c_str ''fifo'') (kern w0) = (Inr \<lparr>st_mode = 0x11A4, st_size = 0\<rparr>, fs0)
   \<and> fst (get_file_type ref_kernel ''fifo'' w0) = Inr S_IFIFO
   \<and> fst (is_fifo ref_kernel ''fifo'' w0) = Inr True
   \<and> fst (is_pipe ref_kernel ''fifo'' w0) = Inr True
   \<and> fst (is_directory ref_kernel ''fifo'' w0) = Inr False
   \<and> fst (is_regular_file ref_kernel ''fifo'' w0) = Inr False
   \<and> (is_pipe :: fsys kernel \<Rightarrow> string \<Rightarrow> fsys world \<Rightarrow> (fsys, bool) result) = is_fifo"
proof -
  let ?dir = "\<lparr>st_mode = 0x41ED, st_size = 0\<rparr> :: stat"
  let ?fifo = "\<lparr>st_mode = 0x11A4, st_size = 0\<rparr> :: stat"
  have h1: "k_lstat ref_kernel (c_str ''dir'') (kern w0) = (Inr ?dir, fs0)"
    by code_simp
  have h2: "k_lstat ref_kernel (c_str ''fifo'') (kern w0) = (Inr ?fifo, fs0)"
    by code_simp
  note a = type_predicates_agree [OF h1]
  note b = type_predicates_agree [OF h2]
  from a have "fst (get_file_type ref_kernel ''dir'' w0) = Inr (st_mode ?dir AND S_IFMT)
     \<and> fst (is_block_file ref_kernel ''dir'' w0)
         = Inr (fst (get_file_type ref_kernel ''dir'' w0) = Inr S_IFBLK)
     \<and> fst (is_character_file ref_kernel ''dir'' w0)
         = Inr (fst (get_file_type ref_kernel ''dir'' w0) = Inr S_IFCHR)
     \<and> fst (is_directory ref_kernel ''dir'' w0)
         = Inr (fst (get_file_type ref_kernel ''dir'' w0) = Inr S_IFDIR)
     \<and> fst (is_fifo ref_kernel ''dir'' w0)
         = Inr (fst (get_file_type ref_kernel ''dir'' w0) = Inr S_IFIFO)
     \<and> fst (is_pipe ref_kernel ''dir'' w0)
         = Inr (fst (get_file_type ref_kernel ''dir'' w0) = Inr S_IFIFO)
     \<and> fst (is_symlink ref_kernel ''dir'' w0)
         = Inr (fst (get_file_type ref_kernel ''dir'' w0) = Inr S_IFLNK)
     \<and> fst (is_regular_file ref_kernel ''dir'' w0)
         = Inr (fst (get_file_type ref_kernel ''dir'' w0) = Inr S_IFREG)
     \<and> fst (is_socket ref_kernel ''dir'' w0)
         = Inr (fst (get_file_type ref_kernel ''dir'' w0) = Inr S_IFSOCK)"
    by blast
  then have dir: "fst (get_file_type ref_kernel ''dir'' w0) = Inr S_IFDIR
     \<and> fst (is_directory ref_kernel ''dir'' w0) = Inr True
     \<and> fst (is_regular_file ref_kernel ''dir'' w0) = Inr False
     \<and> fst (is_symlink ref_kernel ''dir'' w0) = Inr False
     \<and> fst (is_fifo ref_kernel ''dir'' w0) = Inr False
     \<and> fst (is_pipe ref_kernel ''dir'' w0) = Inr False
     \<and> fst (is_block_file ref_kernel ''dir'' w0) = Inr False
     \<and> fst (is_character_file ref_kernel ''dir'' w0) = Inr False
     \<and> fst (is_socket ref_kernel ''dir'' w0) = Inr False"
    by (simp add: stat_h_defs)
  from b have "fst (get_file_type ref_kernel ''fifo'' w0) = Inr (st_mode ?fifo AND S_IFMT)
     \<and> fst (is_directory ref_kernel ''fifo'' w0)
         = Inr (fst (get_file_type ref_kernel ''fifo'' w0) = Inr S_IFDIR)
     \<and> fst (is_fifo ref_kernel ''fifo'' w0)
         = Inr (fst (get_file_type ref_kernel ''fifo'' w0) = Inr S_IFIFO)
     \<and> fst (is_pipe ref_kernel ''fifo'' w0)
         = Inr (fst (get_file_type ref_kernel ''fifo'' w0) = Inr S_IFIFO)
     \<and> fst (is_regular_file ref_kernel ''fifo'' w0)
         = Inr (fst (get_file_type ref_kernel ''fifo'' w0) = Inr S_IFREG)"
    by blast
  then have fifo: "fst (get_file_type ref_kernel ''fifo'' w0) = Inr S_IFIFO
     \<and> fst (is_fifo ref_kernel ''fifo'' w0) = Inr True
     \<and> fst (is_pipe ref_kernel ''fifo'' w0) = Inr True
     \<and> fst (is_directory ref_kernel ''fifo'' w0) = Inr False
     \<and> fst (is_regular_file ref_kernel ''fifo'' w0) = Inr False"
    by (simp add: stat_h_defs)
  from b have one: "\<forall>p \<in> set [is_block_file, is_character_file, is_directory, is_fifo, is_pipe,
                    is_symlink, is_regular_file, is_socket].
         \<forall>q \<in> set [is_block_file, is_character_file, is_directory, is_fifo, is_pipe,
                    is_symlink, is_regular_file, is_socket].
           fst (p ref_kernel ''fifo'' w0) = Inr True \<and> fst (q ref_kernel ''fifo'' w0) = Inr True
           \<longrightarrow> p = q"
    by blast
  have m1: "is_pipe \<in> set [is_block_file, is_character_file, is_directory, is_fifo, is_pipe,
                    is_symlink, is_regular_file, is_socket]"
    by simp
  have m2: "is_fifo \<in> set [is_block_file, is_character_file, is_directory, is_fifo, is_pipe,
                    is_symlink, is_regular_file, is_socket]"
    by simp
  from bspec [OF bspec [OF one m1] m2] fifo
  have same: "(is_pipe :: fsys kernel \<Rightarrow> string \<Rightarrow> fsys world \<Rightarrow> (fsys, bool) result) = is_fifo"
    by blast
  from h1 h2 dir fifo same show ?thesis
    by blast
qed

subsection \<open>Copying\<close>

text \<open>An error that leaves the loop is the one built after \<^verbatim>\<open>copy_file_range\<close>.\<close>

lemma copy_loop_error_aux:
  assumes "copy_loop K rfd wfd len w = Some r"
  shows "fst r = Inl e \<longrightarrow>
           e = System_error (errno (snd r)) Generic_category ''copy_file_range()''"
  using assms
proof (induction K rfd wfd len w r rule: copy_loop.raw_induct [rotated, consumes 1])
  case (1 copy_loop K rfd wfd len w r)
  then show ?case
    by (auto simp: fs_error_get_def split: prod.splits if_splits)
qed

lemma copy_loop_error:
  "copy_loop K rfd wfd len w = Some (Inl e, w') \<Longrightarrow>
     e = System_error (errno w') Generic_category ''copy_file_range()''"
  using copy_loop_error_aux [of K rfd wfd len w "(Inl e, w')" e] by simp


text \<open>
  A transfer that moves nothing while \<open>len\<close> is positive, and leaves the kernel as it
  was, is repeated for ever: the loop does not return.
\<close>

lemma copy_loop_stuck_aux:
  assumes "copy_loop K rfd wfd len w = Some r"
  shows "\<not> (0 < len \<and> k_copy_file_range K rfd wfd (unat len) (kern w) = (Inr 0, kern w))"
  using assms
proof (induction K rfd wfd len w r rule: copy_loop.raw_induct [rotated, consumes 1])
  case (1 copy_loop K rfd wfd len w r)
  show ?case
  proof
    assume s: "0 < len \<and> k_copy_file_range K rfd wfd (unat len) (kern w) = (Inr 0, kern w)"
    then have "c_copy_file_range K rfd wfd len w = (0, w)"
      by (simp add: libc_defs)
    with 1(2) s have "copy_loop K rfd wfd len w = Some r"
      by simp
    from 1(1) [OF this] s show False
      by simp
  qed
qed

lemma copy_loop_stuck:
  assumes "0 < len"
    and "k_copy_file_range K rfd wfd (unat len) (kern w) = (Inr 0, kern w)"
  shows "copy_loop K rfd wfd len w = None"
proof (cases "copy_loop K rfd wfd len w")
  case None
  then show ?thesis .
next
  case (Some r)
  from copy_loop_stuck_aux [OF this] assms show ?thesis
    by simp
qed


text \<open>
  After two successful opens, an \<^verbatim>\<open>fstat\<close> that succeeds makes \<open>copy_file\<close> throw, with
  whatever \<^verbatim>\<open>errno\<close> held before; nothing is copied and nothing is closed.
\<close>

lemma copy_file_fstat_ok:
  assumes "k_open K (c_str target) fs_omode_readonly None (kern w) = (Inr rfd, k1)"
    and "k_open K (c_str dest_path) (fs_omode_writeonly OR fs_omode_create) None k1
           = (Inr wfd, k2)"
    and "k_fstat K (int rfd) k2 = (Inr st, k3)"
  shows "copy_file K target dest_path w =
           Some (Inl (System_error (errno w) Generic_category ''fstat()''), w\<lparr>kern := k3\<rparr>)"
  using assms by (simp add: copy_file_def libc_defs fs_error_get_def)

text \<open>
  An \<^verbatim>\<open>fstat\<close> that fails lets \<open>copy_file\<close> go on: the loop starts with the size that
  the uninitialised struct holds.
\<close>

lemma copy_file_fstat_fail:
  assumes "k_open K (c_str target) fs_omode_readonly None (kern w) = (Inr rfd, k1)"
    and "k_open K (c_str dest_path) (fs_omode_writeonly OR fs_omode_create) None k1
           = (Inr wfd, k2)"
    and "k_fstat K (int rfd) k2 = (Inl n, k3)"
  shows "copy_file K target dest_path w =
           (case copy_loop K (int rfd) (int wfd) (st_size (st_uninit w))
                   (w\<lparr>errno := n, kern := k3\<rparr>) of
              None \<Rightarrow> None
            | Some (Inl e, w4) \<Rightarrow> Some (Inl e, w4)
            | Some (Inr u, w4) \<Rightarrow>
                Some (Inr (), snd (c_close K (int wfd) (snd (c_close K (int rfd) w4)))))"
  using assms
  by (simp add: copy_file_def libc_defs fs_error_get_def
      split: prod.splits option.splits sum.splits)

text \<open>
  Claim C1. For a source of 0 bytes, of 1 byte and of more bytes than one transfer moves,
  \<open>copy_file\<close> is to return normally and leave the destination equal to the source. It
  does not: on the reference kernel, where \<^verbatim>\<open>fstat\<close> succeeds on an open descriptor, it
  throws the error labelled \<^verbatim>\<open>fstat()\<close> at each of the three sizes, and the destination
  that the second \<^verbatim>\<open>open\<close> has created stays empty while the sources of 1 and of 13
  bytes are not.
\<close>

theorem copy_file_raises_at_every_size:
  "map_option fst (copy_file ref_kernel ''empty'' ''new'' w0) =
     Some (Inl (System_error 0 Generic_category ''fstat()''))
   \<and> map_option fst (copy_file ref_kernel ''one'' ''new'' w0) =
     Some (Inl (System_error 0 Generic_category ''fstat()''))
   \<and> map_option fst (copy_file ref_kernel ''big'' ''new'' w0) =
     Some (Inl (System_error 0 Generic_category ''fstat()''))
   \<and> data_at (kern w0) ''one'' = Some ''a''
   \<and> map_option (\<lambda>r. data_at (kern (snd r)) ''new'') (copy_file ref_kernel ''one'' ''new'' w0) =
     Some (Some [])
   \<and> data_at (kern w0) ''big'' = Some ''Hello, world!''
   \<and> chunk (kern w0) = 4
   \<and> map_option (\<lambda>r. data_at (kern (snd r)) ''new'') (copy_file ref_kernel ''big'' ''new'' w0) =
     Some (Some [])"
  by code_simp

text \<open>
  Claim C2. After both opens have succeeded, the step that fetches the size is to throw
  if and only if the stat fails. The test is the other way round: \<open>copy_file\<close> throws the
  error labelled \<^verbatim>\<open>fstat()\<close> if and only if \<^verbatim>\<open>fstat\<close> succeeds. So the counter is never
  set from a fetched size; the loop runs only after a failed \<^verbatim>\<open>fstat\<close>
  (\<open>copy_file_fstat_fail\<close>), where it does throw at once on a failed transfer
  (\<open>copy_loop_sentinel\<close>).
\<close>

theorem copy_file_fstat_inverted:
  assumes "k_open K (c_str target) fs_omode_readonly None (kern w) = (Inr rfd, k1)"
    and "k_open K (c_str dest_path) (fs_omode_writeonly OR fs_omode_create) None k1
           = (Inr wfd, k2)"
  shows "(\<exists>e w'. copy_file K target dest_path w =
            Some (Inl (System_error e Generic_category ''fstat()''), w'))
     = (\<exists>st k3. k_fstat K (int rfd) k2 = (Inr st, k3))"
proof (cases "k_fstat K (int rfd) k2")
  case (Pair r k3)
  show ?thesis
  proof (cases r)
    case (Inl n)
    with Pair have f: "k_fstat K (int rfd) k2 = (Inl n, k3)"
      by simp
    have "\<not> (\<exists>e w'. copy_file K target dest_path w =
            Some (Inl (System_error e Generic_category ''fstat()''), w'))"
      unfolding copy_file_fstat_fail [OF assms f]
      by (auto split: option.splits sum.splits prod.splits dest!: copy_loop_error)
    with f show ?thesis
      by simp
  next
    case (Inr st)
    with Pair have f: "k_fstat K (int rfd) k2 = (Inr st, k3)"
      by simp
    show ?thesis
      using copy_file_fstat_ok [OF assms f] f by auto
  qed
qed

text \<open>
  Copying the file of 13 bytes to a new name in the sample world: the opens return the
  descriptors 3 and 4, \<^verbatim>\<open>fstat\<close> on 3 succeeds with size 13, and \<open>copy_file\<close> throws.
\<close>

theorem copy_file_fstat_inverted_witness:
  "k_open ref_kernel (c_str ''big'') fs_omode_readonly None (kern w0) =
     (Inr 3, snd (k_open ref_kernel ''big'' fs_omode_readonly None fs0))
   \<and> k_open ref_kernel (c_str ''new'') (fs_omode_writeonly OR fs_omode_create) None
       (snd (k_open ref_kernel ''big'' fs_omode_readonly None fs0)) =
     (Inr 4, snd (k_open ref_kernel ''new'' (fs_omode_writeonly OR fs_omode_create) None
                   (snd (k_open ref_kernel ''big'' fs_omode_readonly None fs0))))
   \<and> fst (k_fstat ref_kernel 3
         (snd (k_open ref_kernel ''new'' (fs_omode_writeonly OR fs_omode_create) None
            (snd (k_open ref_kernel ''big'' fs_omode_readonly None fs0))))) =
       Inr \<lparr>st_mode = 0x81A4, st_size = 13\<rparr>
   \<and> (\<exists>e w'. copy_file ref_kernel ''big'' ''new'' w0 =
         Some (Inl (System_error e Generic_category ''fstat()''), w'))"
proof -
  let ?k1 = "snd (k_open ref_kernel ''big'' fs_omode_readonly None fs0)"
  let ?k2 = "snd (k_open ref_kernel ''new'' (fs_omode_writeonly OR fs_omode_create) None ?k1)"
  have h1: "k_open ref_kernel (c_str ''big'') fs_omode_readonly None (kern w0) = (Inr 3, ?k1)"
    by code_simp
  have h2: "k_open ref_kernel (c_str ''new'') (fs_omode_writeonly OR fs_omode_create) None ?k1
              = (Inr 4, ?k2)"
    by code_simp
  have h3: "k_fstat ref_kernel (int 3) ?k2 = (Inr \<lparr>st_mode = 0x81A4, st_size = 13\<rparr>, ?k2)"
    by code_simp
  from h3 have "\<exists>st k3. k_fstat ref_kernel (int 3) ?k2 = (Inr st, k3)"
    by blast
  with copy_file_fstat_inverted [OF h1 h2] h1 h2 h3 show ?thesis
    by simp
qed

text \<open>
  Claim C10. The destination is opened with \<open>create\<close> and without \<open>truncate\<close>, and a copy
  over a longer file is to overwrite it from offset zero and keep its bytes beyond the
  length of the source. The flags are as claimed, but the copy over the file of 20 bytes
  throws the error labelled \<^verbatim>\<open>fstat()\<close> and leaves all 20 bytes as they were: nothing is
  overwritten. Only on the kernel whose \<^verbatim>\<open>fstat\<close> fails, and with 13 in the
  uninitialised struct, does the transfer run, and then the old bytes from 13 on remain.
\<close>

theorem copy_file_keeps_old_destination:
  "(fs_omode_writeonly OR fs_omode_create) AND fs_omode_create = fs_omode_create
   \<and> (fs_omode_writeonly OR fs_omode_create) AND fs_omode_truncate = 0
   \<and> data_at (kern w0) ''big'' = Some ''Hello, world!''
   \<and> data_at (kern w0) ''old'' = Some ''0123456789ABCDEFGHIJ''
   \<and> map_option fst (copy_file ref_kernel ''big'' ''old'' w0) =
     Some (Inl (System_error 0 Generic_category ''fstat()''))
   \<and> map_option (\<lambda>r. data_at (kern (snd r)) ''old'') (copy_file ref_kernel ''big'' ''old'' w0) =
     Some (Some ''0123456789ABCDEFGHIJ'')
   \<and> st_size (st_uninit w0) = 13
   \<and> map_option fst (copy_file eio_kernel ''big'' ''old'' w0) = Some (Inr ())
   \<and> map_option (\<lambda>r. data_at (kern (snd r)) ''old'') (copy_file eio_kernel ''big'' ''old'' w0) =
     Some (Some ''Hello, world!DEFGHIJ'')"
  by code_simp

subsection \<open>Errors\<close>












end
